theory Spec2Isabelle
  imports Complex_Main
begin

section \<open>Python values\<close>

text \<open>
  A Python float is a finite number or one of the three special values. Finite floats are
  taken as exact reals (no rounding error, no overflow); the special values are kept,
  because Python's \<^verbatim>\<open>float()\<close> and \<^verbatim>\<open>json.loads\<close> produce them
  (\<^verbatim>\<open>Infinity\<close>, \<^verbatim>\<open>NaN\<close>) and no comparison with a NaN holds.
\<close>

datatype pyfloat = Fin real | PInf | NInf | NaN

text \<open>The values a decoded JSON body, a lookup result or a feature dictionary can hold.\<close>

datatype jval =
    JNull
  | JBool bool
  | JInt int
  | JFloat pyfloat
  | JStr string
  | JList "jval list"
  | JDict "string \<Rightarrow> jval option"

type_synonym pydict = "string \<rightharpoonup> jval"

text \<open>An external call either raises or returns a value.\<close>

datatype 'a outcome = Raised | Returned 'a

text \<open>The external operations a request can perform, recorded in call order.\<close>

datatype call = FetchOpenWeather | GetSlope | GetLatestSensorState | PredictProba

text \<open>
  Everything the two modules take from outside: the builtins \<^verbatim>\<open>float\<close> and
  \<^verbatim>\<open>str\<close> where Python's own rules decide (parsing a string as a float, printing a
  value that is not a string), the three services imported by \<^verbatim>\<open>app/main.py\<close>, and the
  module-level \<^verbatim>\<open>model\<close> of \<^verbatim>\<open>predictor.py\<close> (\<open>None\<close> when loading
  failed; otherwise \<^verbatim>\<open>predict_proba(vec)[0][1]\<close>, a probability, or \<open>None\<close> when it
  raises).
\<close>

record env =
  float_of_str :: "string \<Rightarrow> pyfloat option"
  str_of :: "jval \<Rightarrow> string"
  fetch_openweather :: "pyfloat \<Rightarrow> pyfloat \<Rightarrow> jval outcome"
  get_slope :: "pyfloat \<Rightarrow> pyfloat \<Rightarrow> jval outcome"
  get_latest_sensor_state :: "jval outcome"
  model :: "(pyfloat list \<Rightarrow> real option) option"

text \<open>\<^verbatim>\<open>d.get(k, default)\<close> and \<^verbatim>\<open>d.get(k)\<close>.\<close>

definition dget :: "pydict \<Rightarrow> string \<Rightarrow> jval \<Rightarrow> jval" where
  "dget d k dflt = (case d k of Some v \<Rightarrow> v | None \<Rightarrow> dflt)"

definition pget :: "pydict \<Rightarrow> string \<Rightarrow> jval" where
  "pget d k = dget d k JNull"

text \<open>\<^verbatim>\<open>float(v)\<close>: \<open>None\<close> where Python raises TypeError or ValueError.\<close>

fun py_float :: "env \<Rightarrow> jval \<Rightarrow> pyfloat option" where
  "py_float E (JFloat f) = Some f"
| "py_float E (JInt n) = Some (Fin (of_int n))"
| "py_float E (JBool b) = Some (Fin (if b then 1 else 0))"
| "py_float E (JStr s) = float_of_str E s"
| "py_float E JNull = None"
| "py_float E (JList xs) = None"
| "py_float E (JDict d) = None"

text \<open>
  \<^verbatim>\<open>round(x, n)\<close> on a float: the nearest multiple of \<open>10\<^sup>-\<^sup>n\<close>, a tie going to the
  even one; infinities and NaN round to themselves.
\<close>

definition round_half_even :: "real \<Rightarrow> int" where
  "round_half_even x =
     (let f = \<lfloor>x\<rfloor>; d = x - of_int f
      in if d < 1/2 then f else if 1/2 < d then f + 1 else if even f then f else f + 1)"

definition py_round :: "real \<Rightarrow> nat \<Rightarrow> real" where
  "py_round x n = of_int (round_half_even (x * 10 ^ n)) / 10 ^ n"

fun round_float :: "pyfloat \<Rightarrow> nat \<Rightarrow> pyfloat" where
  "round_float (Fin x) n = Fin (py_round x n)"
| "round_float PInf n = PInf"
| "round_float NInf n = NInf"
| "round_float NaN n = NaN"

text \<open>\<^verbatim>\<open>sep.join(xs)\<close>.\<close>

fun join :: "string \<Rightarrow> string list \<Rightarrow> string" where
  "join sep [] = []"
| "join sep [x] = x"
| "join sep (x # y # ys) = x @ sep @ join sep (y # ys)"

section \<open>The classifier: \<^verbatim>\<open>app/models/predictor.py\<close>\<close>

datatype exn = RuntimeError string | ValueError string

definition required_keys :: "string list" where
  "required_keys =
     [''rainfall'', ''temperature'', ''slope'', ''wind_speed'', ''displacement_rate'',
      ''vibration'']"

definition missing_keys :: "pydict \<Rightarrow> string list" where
  "missing_keys features = filter (\<lambda>key. features key = None) required_keys"

text \<open>
  The six \<^verbatim>\<open>float(features[key])\<close> of the input vector, in the order of the source;
  \<open>None\<close> when one of them raises.
\<close>

definition input_vec :: "env \<Rightarrow> pydict \<Rightarrow> pyfloat list option" where
  "input_vec E features =
     those (map (\<lambda>key. Option.bind (features key) (py_float E)) required_keys)"

definition risk_label :: "real \<Rightarrow> string" where
  "risk_label prob = (if 0.7 < prob then ''high'' else if 0.4 < prob then ''medium'' else ''low'')"

definition prediction :: "real \<Rightarrow> pydict" where
  "prediction prob =
     [''risk'' \<mapsto> JStr (risk_label prob),
      ''probability'' \<mapsto> JFloat (Fin (py_round prob 3)),
      ''rockfall_predicted'' \<mapsto> JInt (if 0.5 < prob then 1 else 0)]"

definition model_not_loaded :: string where
  "model_not_loaded = ''Model not loaded. Please train first using train_model.py''"

text \<open>The text of the wrapped error without the cause that the source appends to it.\<close>

definition prediction_failed :: string where
  "prediction_failed = ''Prediction failed due to invalid input or model error''"

text \<open>
  \<^verbatim>\<open>predict(features)\<close> of \<^verbatim>\<open>predictor.py\<close>, under the name
  \<^verbatim>\<open>app/main.py\<close> imports it by. It returns the calls made and either the exception
  raised or the result dictionary.
\<close>

definition risk_score :: "env \<Rightarrow> pydict \<Rightarrow> call list \<times> (exn + pydict)" where
  "risk_score E features =
     (case model E of
        None \<Rightarrow> ([], Inl (RuntimeError model_not_loaded))
      | Some predict_proba \<Rightarrow>
          if missing_keys features \<noteq> [] then
            ([], Inl (ValueError (''Missing input features: '' @ join '', '' (missing_keys features))))
          else
            (case input_vec E features of
               None \<Rightarrow> ([], Inl (RuntimeError prediction_failed))
             | Some vec \<Rightarrow>
                 (case predict_proba vec of
                    None \<Rightarrow> ([PredictProba], Inl (RuntimeError prediction_failed))
                  | Some prob \<Rightarrow> ([PredictProba], Inr (prediction prob)))))"

section \<open>Float arithmetic and strings used by \<^verbatim>\<open>app/main.py\<close>\<close>

text \<open>\<^verbatim>\<open>a > b\<close> on floats: false as soon as one side is NaN.\<close>

fun py_gt :: "pyfloat \<Rightarrow> pyfloat \<Rightarrow> bool" where
  "py_gt (Fin a) (Fin b) = (b < a)"
| "py_gt NaN b = False"
| "py_gt a NaN = False"
| "py_gt PInf PInf = False"
| "py_gt PInf b = True"
| "py_gt NInf b = False"
| "py_gt (Fin a) NInf = True"
| "py_gt (Fin a) PInf = False"

text \<open>\<^verbatim>\<open>max(a, b)\<close>: the first argument stays unless the second is greater.\<close>

definition py_max :: "pyfloat \<Rightarrow> pyfloat \<Rightarrow> pyfloat" where
  "py_max a b = (if py_gt b a then b else a)"

fun py_mul :: "pyfloat \<Rightarrow> pyfloat \<Rightarrow> pyfloat" where
  "py_mul (Fin a) (Fin b) = Fin (a * b)"
| "py_mul NaN b = NaN"
| "py_mul a NaN = NaN"
| "py_mul (Fin a) PInf = (if a = 0 then NaN else if 0 < a then PInf else NInf)"
| "py_mul (Fin a) NInf = (if a = 0 then NaN else if 0 < a then NInf else PInf)"
| "py_mul PInf (Fin b) = (if b = 0 then NaN else if 0 < b then PInf else NInf)"
| "py_mul NInf (Fin b) = (if b = 0 then NaN else if 0 < b then NInf else PInf)"
| "py_mul PInf PInf = PInf"
| "py_mul PInf NInf = NInf"
| "py_mul NInf PInf = NInf"
| "py_mul NInf NInf = PInf"

text \<open>Truth value of a Python object, and \<^verbatim>\<open>a or b\<close>.\<close>

fun truthy :: "jval \<Rightarrow> bool" where
  "truthy JNull = False"
| "truthy (JBool b) = b"
| "truthy (JInt n) = (n \<noteq> 0)"
| "truthy (JFloat f) = (f \<noteq> Fin 0)"
| "truthy (JStr s) = (s \<noteq> [])"
| "truthy (JList xs) = (xs \<noteq> [])"
| "truthy (JDict d) = (d \<noteq> Map.empty)"

definition py_or :: "jval \<Rightarrow> jval \<Rightarrow> jval" where
  "py_or a b = (if truthy a then a else b)"

text \<open>\<^verbatim>\<open>str(v)\<close>: a string is itself, any other value is printed by Python.\<close>

definition py_str :: "env \<Rightarrow> jval \<Rightarrow> string" where
  "py_str E v = (case v of JStr s \<Rightarrow> s | _ \<Rightarrow> str_of E v)"

text \<open>
  \<^verbatim>\<open>s.lower()\<close> on the letters A to Z. The words searched for are ASCII, and no other
  8-bit character lowers to an ASCII letter, so the searches below see what Python sees.
\<close>

definition lower_char :: "char \<Rightarrow> char" where
  "lower_char c =
     (case map_of (zip ''ABCDEFGHIJKLMNOPQRSTUVWXYZ'' ''abcdefghijklmnopqrstuvwxyz'') c of
        Some l \<Rightarrow> l | None \<Rightarrow> c)"

definition lower :: "string \<Rightarrow> string" where
  "lower s = map lower_char s"

text \<open>\<^verbatim>\<open>needle in haystack\<close> on strings.\<close>

fun contains :: "string \<Rightarrow> string \<Rightarrow> bool" where
  "contains needle [] = (needle = [])"
| "contains needle (c # cs) =
     (take (length needle) (c # cs) = needle \<or> contains needle cs)"

section \<open>The endpoint \<^verbatim>\<open>predict\<close> of \<^verbatim>\<open>app/main.py\<close>\<close>

text \<open>
  The three alert texts: a warning sign followed by
  \<^verbatim>\<open>HIGH RISK of Rockfall detected! Immediate action required.\<close>, a warning sign
  followed by \<^verbatim>\<open>MODERATE RISK\<close>, a dash and \<^verbatim>\<open>Monitor site closely.\<close>, and a check
  mark followed by \<^verbatim>\<open>LOW RISK\<close>, a dash and \<^verbatim>\<open>Conditions stable.\<close>
\<close>

datatype alert = HighRisk | ModerateRisk | LowRisk

text \<open>
  A \<^verbatim>\<open>JSONResponse\<close>: an error with its status code, its \<^verbatim>\<open>error\<close> text and its
  optional \<^verbatim>\<open>details\<close>, or the status 200 body with \<^verbatim>\<open>features\<close>,
  \<^verbatim>\<open>prediction\<close> and \<^verbatim>\<open>alert\<close> (\<open>None\<close> for null).
\<close>

datatype response = Failure nat string "string option" | Success pydict pydict "alert option"

definition missing_coordinates :: string where
  "missing_coordinates = ''Please provide 'lat' and 'lon' (or 'latitude' and 'longitude') in request body.''"

definition coordinates_not_numeric :: string where
  "coordinates_not_numeric = ''Latitude and longitude must be numeric''"

text \<open>Step 2: the coordinate pair of the body, or the status 400 response.\<close>

definition coordinates :: "env \<Rightarrow> pydict \<Rightarrow> response + pyfloat \<times> pyfloat" where
  "coordinates E body =
     (let lat = dget body ''lat'' (pget body ''latitude'');
          lon = dget body ''lon'' (pget body ''longitude'')
      in if lat = JNull \<or> lon = JNull then Inl (Failure 400 missing_coordinates None)
         else (case (py_float E lat, py_float E lon) of
                 (Some la, Some lo) \<Rightarrow> Inr (la, lo)
               | _ \<Rightarrow> Inl (Failure 400 coordinates_not_numeric None)))"

text \<open>Step 3: the weather dictionary; empty when the fetch raises or returns no dict.\<close>

definition weather_data :: "env \<Rightarrow> pyfloat \<Rightarrow> pyfloat \<Rightarrow> pydict" where
  "weather_data E lat lon =
     (case fetch_openweather E lat lon of Returned (JDict wd) \<Rightarrow> wd | _ \<Rightarrow> Map.empty)"

text \<open>The helper \<^verbatim>\<open>_to_float(v, default)\<close>.\<close>

definition to_float :: "env \<Rightarrow> jval \<Rightarrow> real \<Rightarrow> pyfloat" where
  "to_float E v dflt =
     (if v = JNull then Fin dflt
      else (case py_float E v of Some f \<Rightarrow> f | None \<Rightarrow> Fin dflt))"

text \<open>Step 4: the base feature set from the body, the live weather and the defaults.\<close>

definition base_features :: "pydict \<Rightarrow> pydict \<Rightarrow> pydict" where
  "base_features body wd =
     [''slope'' \<mapsto> pget body ''slope'',
      ''rainfall'' \<mapsto>
         dget body ''rainfall'' (dget wd ''rain_1h'' (dget body ''rain'' (JFloat (Fin 10)))),
      ''temperature'' \<mapsto> dget body ''temperature'' (dget wd ''temp'' (JFloat (Fin 25))),
      ''vibration'' \<mapsto> dget body ''vibration'' JNull,
      ''wind_speed'' \<mapsto> dget body ''wind_speed'' (dget wd ''wind_speed'' (JFloat (Fin 2))),
      ''displacement_rate'' \<mapsto> dget body ''displacement_rate'' JNull]"

text \<open>Step 5: the demo overrides, keyed by the coordinates rounded to 0.1 degree.\<close>

definition jharia :: pydict where
  "jharia =
     [''slope'' \<mapsto> JInt 50, ''rainfall'' \<mapsto> JInt 70, ''temperature'' \<mapsto> JInt 35,
      ''vibration'' \<mapsto> JFloat (Fin 3.5), ''wind_speed'' \<mapsto> JFloat (Fin 10),
      ''displacement_rate'' \<mapsto> JFloat (Fin 0.5)]"

definition talcher :: pydict where
  "talcher =
     [''slope'' \<mapsto> JInt 35, ''rainfall'' \<mapsto> JInt 40, ''temperature'' \<mapsto> JInt 30,
      ''vibration'' \<mapsto> JFloat (Fin 1.5), ''wind_speed'' \<mapsto> JFloat (Fin 6),
      ''displacement_rate'' \<mapsto> JFloat (Fin 0.3)]"

definition dhanbad :: pydict where
  "dhanbad =
     [''slope'' \<mapsto> JInt 15, ''rainfall'' \<mapsto> JInt 10, ''temperature'' \<mapsto> JInt 25,
      ''vibration'' \<mapsto> JFloat (Fin 0.2), ''wind_speed'' \<mapsto> JFloat (Fin 2),
      ''displacement_rate'' \<mapsto> JFloat (Fin 0.1)]"

definition demo_overrides :: "pyfloat \<times> pyfloat \<rightharpoonup> pydict" where
  "demo_overrides =
     [(Fin 23, Fin 86.5) \<mapsto> jharia, (Fin 22.3, Fin 84.8) \<mapsto> talcher,
      (Fin 23.8, Fin 85) \<mapsto> dhanbad]"

definition demo_key :: "pyfloat \<Rightarrow> pyfloat \<Rightarrow> pyfloat \<times> pyfloat" where
  "demo_key lat lon = (round_float lat 1, round_float lon 1)"

text \<open>Step 6: the slope lookup when the request gave no slope.\<close>

definition fill_slope :: "env \<Rightarrow> pyfloat \<Rightarrow> pyfloat \<Rightarrow> pydict \<Rightarrow> call list \<times> pydict" where
  "fill_slope E lat lon features =
     (if pget features ''slope'' = JNull then
        ([GetSlope],
         features(''slope'' \<mapsto>
           (case get_slope E lat lon of
              Returned slope_lookup \<Rightarrow>
                if slope_lookup \<noteq> JNull then slope_lookup else JFloat (Fin 30)
            | Raised \<Rightarrow> JFloat (Fin 30))))
      else ([], features))"

text \<open>
  Step 7: the latest sensor state when the request gave no vibration. A state that is no
  dict has no \<^verbatim>\<open>get\<close>, which raises as a failed read does.
\<close>

definition fill_vibration :: "env \<Rightarrow> pydict \<Rightarrow> call list \<times> pydict" where
  "fill_vibration E features =
     (if pget features ''vibration'' = JNull then
        ([GetLatestSensorState],
         features(''vibration'' \<mapsto>
           (case get_latest_sensor_state E of
              Returned (JDict sensor_state) \<Rightarrow> dget sensor_state ''vibration'' (JFloat (Fin 0))
            | _ \<Rightarrow> JFloat (Fin 0))))
      else ([], features))"

text \<open>Step 8: the displacement rate when the request gave none.\<close>

definition fill_displacement_rate :: "env \<Rightarrow> pydict \<Rightarrow> pydict \<Rightarrow> pydict" where
  "fill_displacement_rate E body features =
     (if pget features ''displacement_rate'' = JNull then
        (let disp = pget body ''displacement''
         in if disp \<noteq> JNull then
              (case py_float E disp of
                 Some f \<Rightarrow> features(''displacement_rate'' \<mapsto> JFloat f)
               | None \<Rightarrow> features(''displacement_rate'' \<mapsto> JFloat (Fin 0.01)))
            else
              features(''displacement_rate'' \<mapsto>
                JFloat (py_max (Fin 0.01)
                  (py_mul (Fin 0.01) (to_float E (pget features ''slope'') 30)))))
      else features)"

text \<open>Step 9: every feature coerced to a float.\<close>

definition coerce_features :: "env \<Rightarrow> pydict \<Rightarrow> pydict" where
  "coerce_features E features =
     [''rainfall'' \<mapsto> JFloat (to_float E (dget features ''rainfall'' (JFloat (Fin 10))) 10),
      ''temperature'' \<mapsto>
         JFloat (to_float E (dget features ''temperature'' (JFloat (Fin 25))) 25),
      ''slope'' \<mapsto> JFloat (to_float E (dget features ''slope'' (JFloat (Fin 30))) 30),
      ''wind_speed'' \<mapsto> JFloat (to_float E (dget features ''wind_speed'' (JFloat (Fin 2))) 2),
      ''displacement_rate'' \<mapsto>
         JFloat (to_float E (dget features ''displacement_rate'' (JFloat (Fin 0.01))) 0.01),
      ''vibration'' \<mapsto> JFloat (to_float E (dget features ''vibration'' (JFloat (Fin 0))) 0)]"

text \<open>
  Steps 3 to 9 for a coordinate pair: the external calls made, in order, and the feature
  dictionary handed to the classifier.
\<close>

definition resolve_features ::
  "env \<Rightarrow> pydict \<Rightarrow> pyfloat \<Rightarrow> pyfloat \<Rightarrow> call list \<times> pydict" where
  "resolve_features E body lat lon =
     (let wd = weather_data E lat lon;
          features = base_features body wd
      in case demo_overrides (demo_key lat lon) of
           Some entry \<Rightarrow> ([FetchOpenWeather], coerce_features E entry)
         | None \<Rightarrow>
             (let (c1, f1) = fill_slope E lat lon features;
                  (c2, f2) = fill_vibration E f1;
                  f3 = fill_displacement_rate E body f2
              in (FetchOpenWeather # c1 @ c2, coerce_features E f3)))"

text \<open>Step 11: the risk text and the probability read from the classifier's result.\<close>

definition risk_level :: "env \<Rightarrow> jval \<Rightarrow> string" where
  "risk_level E result =
     (case result of
        JDict d \<Rightarrow>
          py_str E
            (py_or (py_or (py_or (pget d ''risk'') (pget d ''risk_level'')) (pget d ''Risk''))
               (JStr []))
      | _ \<Rightarrow> py_str E result)"

definition prob_of :: "jval \<Rightarrow> jval" where
  "prob_of result =
     (case result of
        JDict d \<Rightarrow> py_or (py_or (pget d ''probability'') (pget d ''prob'')) JNull
      | _ \<Rightarrow> JNull)"

definition alert_from_label :: "string \<Rightarrow> alert option" where
  "alert_from_label risk_level_l =
     (if contains ''high'' risk_level_l then Some HighRisk
      else if contains ''medium'' risk_level_l \<or> contains ''moderate'' risk_level_l
        then Some ModerateRisk
      else if contains ''low'' risk_level_l then Some LowRisk
      else None)"

definition alert_from_prob :: "env \<Rightarrow> jval \<Rightarrow> alert option" where
  "alert_from_prob E prob =
     (if prob = JNull then None
      else (case py_float E prob of
              None \<Rightarrow> None
            | Some p \<Rightarrow>
                Some (if py_gt p (Fin 0.7) then HighRisk
                      else if py_gt p (Fin 0.4) then ModerateRisk
                      else LowRisk)))"

definition make_alert :: "env \<Rightarrow> jval \<Rightarrow> alert option" where
  "make_alert E result =
     (case alert_from_label (lower (risk_level E result)) of
        Some a \<Rightarrow> Some a
      | None \<Rightarrow> alert_from_prob E (prob_of result))"

definition model_not_loaded_on_server :: string where
  "model_not_loaded_on_server =
     ''Model not loaded on server. Put trained model file in app/models and restart.''"

text \<open>Steps 10 and 11: the classifier run on a feature dictionary, and the response.\<close>

definition run_model :: "env \<Rightarrow> pydict \<Rightarrow> call list \<times> response" where
  "run_model E features =
     (case risk_score E features of
        (cs, Inl (RuntimeError msg)) \<Rightarrow> (cs, Failure 503 model_not_loaded_on_server None)
      | (cs, Inl (ValueError msg)) \<Rightarrow> (cs, Failure 500 ''Model prediction failed'' (Some msg))
      | (cs, Inr result) \<Rightarrow> (cs, Success features result (make_alert E (JDict result))))"

text \<open>The endpoint on a decoded JSON object.\<close>

definition predict :: "env \<Rightarrow> pydict \<Rightarrow> call list \<times> response" where
  "predict E body =
     (case coordinates E body of
        Inl r \<Rightarrow> ([], r)
      | Inr (lat, lon) \<Rightarrow>
          (let (c1, features) = resolve_features E body lat lon;
               (c2, r) = run_model E features
           in (c1 @ c2, r)))"

section \<open>The rain figure in the endpoint \<^verbatim>\<open>weather\<close> of \<^verbatim>\<open>app/main.py\<close>\<close>

text \<open>\<^verbatim>\<open>v / 3\<close>: \<open>None\<close> where Python raises TypeError.\<close>

fun div3 :: "jval \<Rightarrow> jval option" where
  "div3 (JInt n) = Some (JFloat (Fin (of_int n / 3)))"
| "div3 (JFloat (Fin x)) = Some (JFloat (Fin (x / 3)))"
| "div3 (JFloat f) = Some (JFloat f)"
| "div3 (JBool b) = Some (JFloat (Fin ((if b then 1 else 0) / 3)))"
| "div3 v = None"

text \<open>
  Lines 83 to 90 for an OpenWeather dictionary: the 1-hour figure, else a third of the
  3-hour figure, else 0; \<open>Raised\<close> when the division raises.
\<close>

definition owm_rainfall :: "pydict \<Rightarrow> jval outcome" where
  "owm_rainfall owm_data =
     (case dget owm_data ''rain'' (JDict Map.empty) of
        JDict rain_data \<Rightarrow>
          if truthy (pget rain_data ''1h'') then
            Returned (py_or (pget rain_data ''1h'') (JFloat (Fin 0)))
          else if truthy (pget rain_data ''3h'') then
            (case div3 (dget rain_data ''3h'' (JInt 0)) of
               Some q \<Rightarrow> Returned (py_or q (JFloat (Fin 0)))
             | None \<Rightarrow> Raised)
          else Returned (py_or (JInt 0) (JFloat (Fin 0)))
      | _ \<Rightarrow> Returned (py_or (JInt 0) (JFloat (Fin 0))))"

text \<open>The helper \<^verbatim>\<open>as_number(v)\<close>.\<close>

definition as_number :: "env \<Rightarrow> jval \<Rightarrow> pyfloat option" where
  "as_number E v = (if v = JNull then None else py_float E v)"

text \<open>The \<^verbatim>\<open>rainfall\<close> of the summary when OpenWeather answered with a dictionary.\<close>

definition summary_rainfall :: "env \<Rightarrow> pydict \<Rightarrow> pyfloat option outcome" where
  "summary_rainfall E owm_data =
     (case owm_rainfall owm_data of
        Raised \<Rightarrow> Raised
      | Returned v \<Rightarrow> Returned (as_number E v))"

section \<open>Finite inputs\<close>

fun is_finite :: "pyfloat \<Rightarrow> bool" where
  "is_finite (Fin x) = True"
| "is_finite f = False"

text \<open>A value that \<^verbatim>\<open>float()\<close> does not turn into an infinity or a NaN.\<close>

definition finite_value :: "env \<Rightarrow> jval \<Rightarrow> bool" where
  "finite_value E v = (case py_float E v of Some f \<Rightarrow> is_finite f | None \<Rightarrow> True)"

text \<open>
  No value of the body, of the weather dictionary, of the slope lookup or of the sensor
  state reads as an infinity or a NaN.
\<close>

definition finite_inputs :: "env \<Rightarrow> pydict \<Rightarrow> pyfloat \<Rightarrow> pyfloat \<Rightarrow> bool" where
  "finite_inputs E body lat lon =
     ((\<forall>k v. body k = Some v \<longrightarrow> finite_value E v)
      \<and> (\<forall>k v. weather_data E lat lon k = Some v \<longrightarrow> finite_value E v)
      \<and> (\<forall>v. get_slope E lat lon = Returned v \<longrightarrow> finite_value E v)
      \<and> (\<forall>d k v. get_latest_sensor_state E = Returned (JDict d) \<longrightarrow> d k = Some v
            \<longrightarrow> finite_value E v))"

section \<open>Test doubles and sample inputs\<close>

text \<open>
  An environment whose lookups have fixed outcomes. Its \<^verbatim>\<open>float\<close> accepts no string and
  its \<^verbatim>\<open>str\<close> prints nothing: the sample inputs hold no string to parse and no label
  that is not a string.
\<close>

definition test_env ::
  "jval outcome \<Rightarrow> jval outcome \<Rightarrow> jval outcome \<Rightarrow> (pyfloat list \<Rightarrow> real option) option \<Rightarrow> env"
  where
  "test_env w s v m =
     \<lparr>float_of_str = (\<lambda>x. None), str_of = (\<lambda>x. []), fetch_openweather = (\<lambda>la lo. w),
      get_slope = (\<lambda>la lo. s), get_latest_sensor_state = v, model = m\<rparr>"

text \<open>The sample of the manual test at the end of \<^verbatim>\<open>predictor.py\<close>.\<close>

definition sample_features :: pydict where
  "sample_features =
     [''rainfall'' \<mapsto> JInt 35, ''temperature'' \<mapsto> JInt 24, ''slope'' \<mapsto> JInt 38,
      ''wind_speed'' \<mapsto> JInt 6, ''displacement_rate'' \<mapsto> JFloat (Fin 0.09),
      ''vibration'' \<mapsto> JFloat (Fin 2.1)]"

text \<open>A classifier that answers every vector with the same probability.\<close>

definition const_model :: "real \<Rightarrow> (pyfloat list \<Rightarrow> real option) option" where
  "const_model p = Some (\<lambda>vec. Some p)"


definition weather_sample :: jval where
  "weather_sample =
     JDict [''rain_1h'' \<mapsto> JFloat (Fin 5), ''temp'' \<mapsto> JFloat (Fin 40),
            ''wind_speed'' \<mapsto> JFloat (Fin 9)]"

definition sensor_sample :: jval where
  "sensor_sample = JDict [''vibration'' \<mapsto> JFloat (Fin 1.5)]"

definition live_env :: env where
  "live_env =
     test_env (Returned weather_sample) (Returned (JInt 12)) (Returned sensor_sample)
       (const_model 0.9)"

definition null_body :: pydict where
  "null_body =
     [''lat'' \<mapsto> JFloat (Fin 10), ''lon'' \<mapsto> JFloat (Fin 10), ''rainfall'' \<mapsto> JNull,
      ''temperature'' \<mapsto> JNull, ''wind_speed'' \<mapsto> JNull, ''slope'' \<mapsto> JNull,
      ''vibration'' \<mapsto> JNull]"

definition slope_body :: "real \<Rightarrow> pydict" where
  "slope_body s =
     [''lat'' \<mapsto> JFloat (Fin 10), ''lon'' \<mapsto> JFloat (Fin 10), ''slope'' \<mapsto> JFloat (Fin s)]"

definition infinite_slope_body :: pydict where
  "infinite_slope_body =
     [''lat'' \<mapsto> JFloat (Fin 10), ''lon'' \<mapsto> JFloat (Fin 10), ''slope'' \<mapsto> JFloat PInf]"

definition jharia_body :: pydict where
  "jharia_body = [''lat'' \<mapsto> JFloat (Fin 23.04), ''lon'' \<mapsto> JFloat (Fin 86.53)]"

definition rain_snapshot :: pydict where
  "rain_snapshot = [''rain'' \<mapsto> JDict [''3h'' \<mapsto> JInt 9]]"

definition rain_dict_env :: env where
  "rain_dict_env = test_env (Returned (JDict rain_snapshot)) Raised Raised (const_model 0.9)"

section \<open>Helper lemmas\<close>

lemma test_env_sel:
  "float_of_str (test_env w s v m) = (\<lambda>x. None)"
  "str_of (test_env w s v m) = (\<lambda>x. [])"
  "fetch_openweather (test_env w s v m) = (\<lambda>la lo. w)"
  "get_slope (test_env w s v m) = (\<lambda>la lo. s)"
  "get_latest_sensor_state (test_env w s v m) = v"
  "model (test_env w s v m) = m"
  by (simp_all add: test_env_def)

lemma risk_score_InrD:
  assumes "risk_score E features = (calls, Inr result)"
  shows "\<exists>predict_proba vec p. model E = Some predict_proba \<and> missing_keys features = []
     \<and> input_vec E features = Some vec \<and> predict_proba vec = Some p
     \<and> calls = [PredictProba] \<and> result = prediction p"
  using assms unfolding risk_score_def
  by (auto split: option.splits if_splits)

lemma risk_label_cases:
  "(risk_label p = ''high'') = (0.7 < p)"
  "(risk_label p = ''medium'') = (0.4 < p \<and> p \<le> 0.7)"
  "(risk_label p = ''low'') = (p \<le> 0.4)"
  by (auto simp: risk_label_def)



lemma sample_vec:
  "input_vec (test_env w s v m) sample_features = Some [Fin 35, Fin 24, Fin 38, Fin 6, Fin 0.09, Fin 2.1]"
  by (simp add: input_vec_def required_keys_def sample_features_def)

lemma sample_missing: "missing_keys sample_features = []"
  by (simp add: missing_keys_def required_keys_def sample_features_def)

lemma sample_run:
  "risk_score (test_env w s v (const_model p)) sample_features = ([PredictProba], Inr (prediction p))"
  by (simp add: risk_score_def sample_vec sample_missing test_env_sel const_model_def)

section \<open>The classifier's result\<close>

text \<open>
  C1. Whenever the classifier returns a result, the model was loaded and gave a probability
  \<open>p\<close> for the input vector, and the risk label follows the fixed three-way split of
  \<open>p\<close>: it is \<^verbatim>\<open>high\<close> iff \<open>p > 0.7\<close>, \<^verbatim>\<open>medium\<close> iff
  \<open>0.4 < p \<le> 0.7\<close> and \<^verbatim>\<open>low\<close> iff \<open>p \<le> 0.4\<close>; at \<open>p = 0.7\<close> it is
  \<^verbatim>\<open>medium\<close>.
\<close>

theorem risk_label_three_way:
  assumes "risk_score E features = (calls, Inr result)"
  shows "\<exists>predict_proba vec p. model E = Some predict_proba
     \<and> input_vec E features = Some vec \<and> predict_proba vec = Some p
     \<and> (result ''risk'' = Some (JStr ''high'') \<longleftrightarrow> 0.7 < p)
     \<and> (result ''risk'' = Some (JStr ''medium'') \<longleftrightarrow> 0.4 < p \<and> p \<le> 0.7)
     \<and> (result ''risk'' = Some (JStr ''low'') \<longleftrightarrow> p \<le> 0.4)
     \<and> (p = 0.7 \<longrightarrow> result ''risk'' = Some (JStr ''medium''))"
proof -
  from risk_score_InrD [OF assms] obtain predict_proba vec p where
    m: "model E = Some predict_proba" and v: "input_vec E features = Some vec"
    and p: "predict_proba vec = Some p" and r: "result = prediction p"
    by blast
  have "result ''risk'' = Some (JStr (risk_label p))"
    by (simp add: r prediction_def)
  then have "(result ''risk'' = Some (JStr ''high'') \<longleftrightarrow> 0.7 < p)
     \<and> (result ''risk'' = Some (JStr ''medium'') \<longleftrightarrow> 0.4 < p \<and> p \<le> 0.7)
     \<and> (result ''risk'' = Some (JStr ''low'') \<longleftrightarrow> p \<le> 0.4)
     \<and> (p = 0.7 \<longrightarrow> result ''risk'' = Some (JStr ''medium''))"
    by (simp add: risk_label_cases)
  with m v p show ?thesis by blast
qed

theorem risk_label_three_way_witness:
  "risk_score (test_env Raised Raised Raised (const_model 0.7)) sample_features
     = ([PredictProba], Inr (prediction 0.7))
   \<and> prediction 0.7 ''risk'' = Some (JStr ''medium'')
   \<and> prediction 0.7 ''risk'' \<noteq> Some (JStr ''high'')"
proof -
  let ?E = "test_env Raised Raised Raised (const_model 0.7)"
  have h: "risk_score ?E sample_features = ([PredictProba], Inr (prediction 0.7))"
    by (rule sample_run)
  from risk_label_three_way [OF h] obtain pp vec p where
    "model ?E = Some pp" "pp vec = Some p"
    and hi: "prediction 0.7 ''risk'' = Some (JStr ''high'') \<longleftrightarrow> 0.7 < p"
    and me: "prediction 0.7 ''risk'' = Some (JStr ''medium'') \<longleftrightarrow> 0.4 < p \<and> p \<le> 0.7"
    by blast
  then have "p = 0.7" by (auto simp: test_env_sel const_model_def)
  with hi me h show ?thesis by simp
qed



text \<open>
  The flag is decided before rounding: at \<open>p = 0.5004\<close> the field shows \<open>0.5\<close> and
  the flag is 1.
\<close>

lemma rounded_field_at_threshold:
  "prediction 0.5004 ''probability'' = Some (JFloat (Fin 0.5))
   \<and> prediction 0.5004 ''rockfall_predicted'' = Some (JInt 1)"
  by (simp add: prediction_def py_round_def round_half_even_def)

section \<open>Missing features\<close>









section \<open>The alert\<close>

lemma risk_level_prediction: "risk_level E (JDict (prediction p)) = risk_label p"
  by (simp add: risk_level_def prediction_def pget_def dget_def py_or_def py_str_def risk_label_def)

lemma lower_labels:
  "lower ''high'' = ''high''" "lower ''medium'' = ''medium''" "lower ''low'' = ''low''"
  by (simp_all add: lower_def lower_char_def)

lemma alert_from_labels:
  "alert_from_label ''high'' = Some HighRisk"
  "alert_from_label ''medium'' = Some ModerateRisk"
  "alert_from_label ''low'' = Some LowRisk"
  by (simp_all add: alert_from_label_def)

lemma alert_of_prediction:
  "alert_from_label (lower (risk_level E (JDict (prediction p)))) =
     Some (if 0.7 < p then HighRisk else if 0.4 < p then ModerateRisk else LowRisk)"
  by (simp add: risk_level_prediction risk_label_def lower_labels alert_from_labels)

lemma make_alert_prediction:
  "make_alert E (JDict (prediction p)) =
     Some (if 0.7 < p then HighRisk else if 0.4 < p then ModerateRisk else LowRisk)"
  unfolding make_alert_def alert_of_prediction by simp

lemma run_model_SuccessD:
  assumes "run_model E fs = (calls, Success features result alert)"
  shows "\<exists>p. risk_score E fs = (calls, Inr (prediction p)) \<and> features = fs
     \<and> result = prediction p \<and> alert = make_alert E (JDict (prediction p))"
proof (cases "risk_score E fs")
  case (Pair cs r)
  show ?thesis
  proof (cases r)
    case (Inl e)
    with Pair assms show ?thesis by (cases e) (simp_all add: run_model_def)
  next
    case (Inr res)
    with Pair risk_score_InrD [of E fs cs res] obtain p where "res = prediction p" by blast
    with Pair Inr assms show ?thesis by (auto simp: run_model_def)
  qed
qed

lemma coordinates_InlD: "coordinates E body = Inl r \<Longrightarrow> \<exists>m. r = Failure 400 m None"
  by (auto simp: coordinates_def Let_def split: if_splits option.splits)

lemma predict_SuccessD:
  assumes "predict E body = (calls, Success features result alert)"
  shows "\<exists>lat lon c1 c2. coordinates E body = Inr (lat, lon)
     \<and> resolve_features E body lat lon = (c1, features)
     \<and> run_model E features = (c2, Success features result alert) \<and> calls = c1 @ c2"
proof (cases "coordinates E body")
  case (Inl r)
  with coordinates_InlD [OF Inl] assms show ?thesis by (auto simp: predict_def)
next
  case (Inr ll)
  obtain lat lon where ll: "ll = (lat, lon)" by (cases ll)
  obtain c1 fs where rf: "resolve_features E body lat lon = (c1, fs)"
    by (cases "resolve_features E body lat lon")
  obtain c2 r where rm: "run_model E fs = (c2, r)" by (cases "run_model E fs")
  from assms Inr ll rf rm have cr: "calls = c1 @ c2" "r = Success features result alert"
    by (simp_all add: predict_def)
  with rm run_model_SuccessD [of E fs c2 features result alert]
  have "features = fs" by blast
  with cr Inr ll rf rm show ?thesis by simp
qed

text \<open>
  C10. Whenever the endpoint answers with status 200, the prediction is the classifier's
  result for some probability \<open>p\<close>, its risk label is one of \<^verbatim>\<open>low\<close>,
  \<^verbatim>\<open>medium\<close> and \<^verbatim>\<open>high\<close>, and the alert is the one the substring match on that
  label selects: it is never null, and the fallback on the probability is not reached.
\<close>

theorem alert_never_null:
  assumes "predict E body = (calls, Success features result alert)"
  shows "\<exists>p. result = prediction p
     \<and> result ''risk'' \<in> {Some (JStr ''low''), Some (JStr ''medium''), Some (JStr ''high'')}
     \<and> alert_from_label (lower (risk_level E (JDict result))) = alert
     \<and> alert = Some (if 0.7 < p then HighRisk else if 0.4 < p then ModerateRisk else LowRisk)
     \<and> alert \<noteq> None"
proof -
  from predict_SuccessD [OF assms] obtain c2 where
    "run_model E features = (c2, Success features result alert)" by blast
  from run_model_SuccessD [OF this] obtain p where
    r: "result = prediction p" and a: "alert = make_alert E (JDict (prediction p))" by blast
  have "result ''risk'' = Some (JStr (risk_label p))" by (simp add: r prediction_def)
  then have "result ''risk'' \<in> {Some (JStr ''low''), Some (JStr ''medium''), Some (JStr ''high'')}"
    by (simp add: risk_label_def)
  with r a show ?thesis
    by (auto simp: make_alert_prediction alert_of_prediction)
qed


section \<open>Feature resolution step by step\<close>

lemma to_float_JFloat: "to_float E (JFloat f) d = f"
  by (simp add: to_float_def)

lemma to_float_JNull: "to_float E JNull d = Fin d"
  by (simp add: to_float_def)

lemma dget_cong: "f k = g k \<Longrightarrow> dget f k d = dget g k d"
  by (simp add: dget_def)

lemma dget_Some: "f k = Some v \<Longrightarrow> dget f k d = v"
  by (simp add: dget_def)

lemma base_features_at:
  "base_features body wd ''slope'' = Some (pget body ''slope'')"
  "base_features body wd ''rainfall'' =
     Some (dget body ''rainfall'' (dget wd ''rain_1h'' (dget body ''rain'' (JFloat (Fin 10)))))"
  "base_features body wd ''temperature'' =
     Some (dget body ''temperature'' (dget wd ''temp'' (JFloat (Fin 25))))"
  "base_features body wd ''vibration'' = Some (pget body ''vibration'')"
  "base_features body wd ''wind_speed'' =
     Some (dget body ''wind_speed'' (dget wd ''wind_speed'' (JFloat (Fin 2))))"
  "base_features body wd ''displacement_rate'' = Some (pget body ''displacement_rate'')"
  by (simp_all add: base_features_def pget_def)

lemma fill_slope_calls:
  "fst (fill_slope E lat lon f) = (if pget f ''slope'' = JNull then [GetSlope] else [])"
  by (simp add: fill_slope_def)

lemma fill_slope_other: "k \<noteq> ''slope'' \<Longrightarrow> snd (fill_slope E lat lon f) k = f k"
  by (simp add: fill_slope_def)

lemma fill_vibration_calls:
  "fst (fill_vibration E f) = (if pget f ''vibration'' = JNull then [GetLatestSensorState] else [])"
  by (simp add: fill_vibration_def)

lemma fill_vibration_other: "k \<noteq> ''vibration'' \<Longrightarrow> snd (fill_vibration E f) k = f k"
  by (simp add: fill_vibration_def)

lemma fill_displacement_rate_other:
  "k \<noteq> ''displacement_rate'' \<Longrightarrow> fill_displacement_rate E body f k = f k"
  by (simp add: fill_displacement_rate_def Let_def split: option.split)

lemma coerce_features_at:
  "coerce_features E f ''rainfall'' =
     Some (JFloat (to_float E (dget f ''rainfall'' (JFloat (Fin 10))) 10))"
  "coerce_features E f ''temperature'' =
     Some (JFloat (to_float E (dget f ''temperature'' (JFloat (Fin 25))) 25))"
  "coerce_features E f ''slope'' =
     Some (JFloat (to_float E (dget f ''slope'' (JFloat (Fin 30))) 30))"
  "coerce_features E f ''wind_speed'' =
     Some (JFloat (to_float E (dget f ''wind_speed'' (JFloat (Fin 2))) 2))"
  "coerce_features E f ''displacement_rate'' =
     Some (JFloat (to_float E (dget f ''displacement_rate'' (JFloat (Fin 0.01))) 0.01))"
  "coerce_features E f ''vibration'' =
     Some (JFloat (to_float E (dget f ''vibration'' (JFloat (Fin 0))) 0))"
  by (simp_all add: coerce_features_def)

lemma resolve_no_override:
  assumes "demo_overrides (demo_key lat lon) = None"
  shows "resolve_features E body lat lon =
     (FetchOpenWeather #
        fst (fill_slope E lat lon (base_features body (weather_data E lat lon))) @
        fst (fill_vibration E
               (snd (fill_slope E lat lon (base_features body (weather_data E lat lon))))),
      coerce_features E
        (fill_displacement_rate E body
          (snd (fill_vibration E
                 (snd (fill_slope E lat lon (base_features body (weather_data E lat lon))))))))"
  using assms by (simp add: resolve_features_def Let_def split_beta)

lemma fill_slope_at:
  "snd (fill_slope E lat lon f) ''slope'' =
     (if pget f ''slope'' = JNull then
        Some (case get_slope E lat lon of
                Returned v \<Rightarrow> if v \<noteq> JNull then v else JFloat (Fin 30)
              | Raised \<Rightarrow> JFloat (Fin 30))
      else f ''slope'')"
  by (simp add: fill_slope_def)

lemma fill_vibration_at:
  "snd (fill_vibration E f) ''vibration'' =
     (if pget f ''vibration'' = JNull then
        Some (case get_latest_sensor_state E of
                Returned (JDict sensor_state) \<Rightarrow> dget sensor_state ''vibration'' (JFloat (Fin 0))
              | _ \<Rightarrow> JFloat (Fin 0))
      else f ''vibration'')"
  by (simp add: fill_vibration_def)

lemma fill_displacement_rate_at:
  "fill_displacement_rate E body f ''displacement_rate'' =
     (if pget f ''displacement_rate'' = JNull then
        Some (JFloat
          (if pget body ''displacement'' \<noteq> JNull then
             (case py_float E (pget body ''displacement'') of Some x \<Rightarrow> x | None \<Rightarrow> Fin 0.01)
           else py_max (Fin 0.01) (py_mul (Fin 0.01) (to_float E (pget f ''slope'') 30))))
      else f ''displacement_rate'')"
  by (simp add: fill_displacement_rate_def Let_def split: option.split)

lemma pget_cong: "f k = g k \<Longrightarrow> pget f k = pget g k"
  by (simp add: pget_def dget_def)

lemma pget_Some: "f k = Some v \<Longrightarrow> pget f k = v"
  by (simp add: pget_def dget_def)

lemma slope_lookup_float:
  "to_float E (case r of Returned v \<Rightarrow> if v \<noteq> JNull then v else JFloat (Fin 30)
                        | Raised \<Rightarrow> JFloat (Fin 30)) 30
   = (case r of Returned v \<Rightarrow> to_float E v 30 | Raised \<Rightarrow> Fin 30)"
  by (cases r) (simp_all add: to_float_def)

lemma sensor_float:
  "to_float E (case r of Returned (JDict s) \<Rightarrow> dget s ''vibration'' (JFloat (Fin 0))
                        | _ \<Rightarrow> JFloat (Fin 0)) 0
   = (case r of Returned (JDict s) \<Rightarrow> to_float E (dget s ''vibration'' (JFloat (Fin 0))) 0
              | _ \<Rightarrow> Fin 0)"
proof (cases r)
  case Raised
  then show ?thesis by (simp add: to_float_JFloat)
next
  case (Returned v)
  then show ?thesis by (cases v) (simp_all add: to_float_JFloat)
qed

lemma to_float_pget: "to_float E (pget f k) d = to_float E (dget f k (JFloat (Fin d))) d"
  by (cases "f k") (simp_all add: pget_def dget_def to_float_def)

text \<open>The features after steps 6 to 8, before the final coercion.\<close>

lemma filled_other:
  assumes "k \<noteq> ''slope''" "k \<noteq> ''vibration''" "k \<noteq> ''displacement_rate''"
  shows "fill_displacement_rate E body
           (snd (fill_vibration E (snd (fill_slope E lat lon f)))) k = f k"
  using assms
  by (simp add: fill_displacement_rate_other fill_vibration_other fill_slope_other)

lemma filled_slope:
  "fill_displacement_rate E body
     (snd (fill_vibration E (snd (fill_slope E lat lon f)))) ''slope''
   = snd (fill_slope E lat lon f) ''slope''"
  by (simp add: fill_displacement_rate_other fill_vibration_other)

lemma filled_vibration:
  "fill_displacement_rate E body
     (snd (fill_vibration E (snd (fill_slope E lat lon f)))) ''vibration''
   = snd (fill_vibration E (snd (fill_slope E lat lon f))) ''vibration''"
  by (simp add: fill_displacement_rate_other)

section \<open>Feature resolution without a demo override\<close>

lemma resolve_calls:
  assumes "demo_overrides (demo_key lat lon) = None"
  shows "fst (resolve_features E body lat lon) =
     FetchOpenWeather # (if pget body ''slope'' = JNull then [GetSlope] else [])
       @ (if pget body ''vibration'' = JNull then [GetLatestSensorState] else [])"
proof -
  let ?B = "base_features body (weather_data E lat lon)"
  have s: "pget ?B ''slope'' = pget body ''slope''"
    by (simp add: pget_Some base_features_at)
  have "snd (fill_slope E lat lon ?B) ''vibration'' = ?B ''vibration''"
    by (simp add: fill_slope_other)
  then have v: "pget (snd (fill_slope E lat lon ?B)) ''vibration'' = pget body ''vibration''"
    by (simp add: pget_Some base_features_at)
  show ?thesis
    unfolding resolve_no_override [OF assms] fst_conv fill_slope_calls fill_vibration_calls s v
    by (rule refl)
qed

lemma resolve_rainfall:
  assumes "demo_overrides (demo_key lat lon) = None"
  shows "snd (resolve_features E body lat lon) ''rainfall'' =
     Some (JFloat (to_float E
       (dget body ''rainfall''
          (dget (weather_data E lat lon) ''rain_1h'' (dget body ''rain'' (JFloat (Fin 10))))) 10))"
  unfolding resolve_no_override [OF assms] snd_conv coerce_features_at
  by (simp add: dget_Some filled_other base_features_at)

lemma resolve_temperature:
  assumes "demo_overrides (demo_key lat lon) = None"
  shows "snd (resolve_features E body lat lon) ''temperature'' =
     Some (JFloat (to_float E
       (dget body ''temperature'' (dget (weather_data E lat lon) ''temp'' (JFloat (Fin 25)))) 25))"
  unfolding resolve_no_override [OF assms] snd_conv coerce_features_at
  by (simp add: dget_Some filled_other base_features_at)

lemma resolve_wind_speed:
  assumes "demo_overrides (demo_key lat lon) = None"
  shows "snd (resolve_features E body lat lon) ''wind_speed'' =
     Some (JFloat (to_float E
       (dget body ''wind_speed'' (dget (weather_data E lat lon) ''wind_speed'' (JFloat (Fin 2)))) 2))"
  unfolding resolve_no_override [OF assms] snd_conv coerce_features_at
  by (simp add: dget_Some filled_other base_features_at)

lemma filled_slope_float:
  "to_float E (dget (snd (fill_slope E lat lon (base_features body wd))) ''slope''
                 (JFloat (Fin 30))) 30
   = (if pget body ''slope'' = JNull then
        (case get_slope E lat lon of Returned v \<Rightarrow> to_float E v 30 | Raised \<Rightarrow> Fin 30)
      else to_float E (pget body ''slope'') 30)"
proof -
  let ?B = "base_features body wd"
  have s: "pget ?B ''slope'' = pget body ''slope''"
    by (simp add: pget_Some base_features_at)
  show ?thesis
  proof (cases "pget body ''slope'' = JNull")
    case True
    then have "snd (fill_slope E lat lon ?B) ''slope'' =
       Some (case get_slope E lat lon of
               Returned v \<Rightarrow> if v \<noteq> JNull then v else JFloat (Fin 30)
             | Raised \<Rightarrow> JFloat (Fin 30))"
      by (simp add: fill_slope_at s)
    then show ?thesis using True by (simp add: dget_Some slope_lookup_float)
  next
    case False
    then have "snd (fill_slope E lat lon ?B) ''slope'' = Some (pget body ''slope'')"
      by (simp add: fill_slope_at s base_features_at)
    then show ?thesis using False by (simp add: dget_Some)
  qed
qed

lemma resolve_slope:
  assumes "demo_overrides (demo_key lat lon) = None"
  shows "snd (resolve_features E body lat lon) ''slope'' =
     Some (JFloat
       (if pget body ''slope'' = JNull then
          (case get_slope E lat lon of Returned v \<Rightarrow> to_float E v 30 | Raised \<Rightarrow> Fin 30)
        else to_float E (pget body ''slope'') 30))"
proof -
  let ?B = "base_features body (weather_data E lat lon)"
  let ?F = "fill_displacement_rate E body (snd (fill_vibration E (snd (fill_slope E lat lon ?B))))"
  have "dget ?F ''slope'' (JFloat (Fin 30))
      = dget (snd (fill_slope E lat lon ?B)) ''slope'' (JFloat (Fin 30))"
    by (rule dget_cong) (rule filled_slope)
  then show ?thesis
    unfolding resolve_no_override [OF assms] snd_conv coerce_features_at
    by (simp only: filled_slope_float)
qed

lemma resolve_vibration:
  assumes "demo_overrides (demo_key lat lon) = None"
  shows "snd (resolve_features E body lat lon) ''vibration'' =
     Some (JFloat
       (if pget body ''vibration'' = JNull then
          (case get_latest_sensor_state E of
             Returned (JDict sensor_state) \<Rightarrow>
               to_float E (dget sensor_state ''vibration'' (JFloat (Fin 0))) 0
           | _ \<Rightarrow> Fin 0)
        else to_float E (pget body ''vibration'') 0))"
proof -
  let ?B = "base_features body (weather_data E lat lon)"
  let ?S = "snd (fill_slope E lat lon ?B)"
  let ?F = "fill_displacement_rate E body (snd (fill_vibration E ?S))"
  have b: "?S ''vibration'' = Some (pget body ''vibration'')"
    by (simp add: fill_slope_other base_features_at)
  then have p: "pget ?S ''vibration'' = pget body ''vibration''"
    by (simp add: pget_Some)
  have d: "dget ?F ''vibration'' (JFloat (Fin 0))
      = dget (snd (fill_vibration E ?S)) ''vibration'' (JFloat (Fin 0))"
    by (rule dget_cong) (rule filled_vibration)
  have "to_float E (dget (snd (fill_vibration E ?S)) ''vibration'' (JFloat (Fin 0))) 0 =
     (if pget body ''vibration'' = JNull then
        (case get_latest_sensor_state E of
           Returned (JDict sensor_state) \<Rightarrow>
             to_float E (dget sensor_state ''vibration'' (JFloat (Fin 0))) 0
         | _ \<Rightarrow> Fin 0)
      else to_float E (pget body ''vibration'') 0)"
  proof (cases "pget body ''vibration'' = JNull")
    case True
    then have "snd (fill_vibration E ?S) ''vibration'' =
        Some (case get_latest_sensor_state E of
                Returned (JDict sensor_state) \<Rightarrow> dget sensor_state ''vibration'' (JFloat (Fin 0))
              | _ \<Rightarrow> JFloat (Fin 0))"
      by (simp add: fill_vibration_at p)
    then show ?thesis using True by (simp add: dget_Some sensor_float)
  next
    case False
    then have "snd (fill_vibration E ?S) ''vibration'' = Some (pget body ''vibration'')"
      by (simp add: fill_vibration_at p b)
    then show ?thesis using False by (simp add: dget_Some)
  qed
  then show ?thesis
    unfolding resolve_no_override [OF assms] snd_conv coerce_features_at d
    by (simp only:)
qed

lemma resolve_displacement_rate:
  assumes "demo_overrides (demo_key lat lon) = None"
  shows "snd (resolve_features E body lat lon) ''displacement_rate'' =
     Some (JFloat
       (if pget body ''displacement_rate'' = JNull then
          (if pget body ''displacement'' \<noteq> JNull then
             (case py_float E (pget body ''displacement'') of Some f \<Rightarrow> f | None \<Rightarrow> Fin 0.01)
           else py_max (Fin 0.01) (py_mul (Fin 0.01)
                  (if pget body ''slope'' = JNull then
                     (case get_slope E lat lon of
                        Returned v \<Rightarrow> to_float E v 30 | Raised \<Rightarrow> Fin 30)
                   else to_float E (pget body ''slope'') 30)))
        else to_float E (pget body ''displacement_rate'') 0.01))"
proof -
  let ?B = "base_features body (weather_data E lat lon)"
  let ?S = "snd (fill_slope E lat lon ?B)"
  let ?V = "snd (fill_vibration E ?S)"
  have dr: "?V ''displacement_rate'' = Some (pget body ''displacement_rate'')"
    by (simp add: fill_vibration_other fill_slope_other base_features_at)
  then have pdr: "pget ?V ''displacement_rate'' = pget body ''displacement_rate''"
    by (simp add: pget_Some)
  have "?V ''slope'' = ?S ''slope''" by (simp add: fill_vibration_other)
  then have "dget ?V ''slope'' (JFloat (Fin 30)) = dget ?S ''slope'' (JFloat (Fin 30))"
    by (rule dget_cong)
  then have sl: "to_float E (pget ?V ''slope'') 30 =
      (if pget body ''slope'' = JNull then
         (case get_slope E lat lon of Returned v \<Rightarrow> to_float E v 30 | Raised \<Rightarrow> Fin 30)
       else to_float E (pget body ''slope'') 30)"
    by (simp only: to_float_pget filled_slope_float)
  show ?thesis
  proof (cases "pget body ''displacement_rate'' = JNull")
    case True
    then have "fill_displacement_rate E body ?V ''displacement_rate'' =
        Some (JFloat
          (if pget body ''displacement'' \<noteq> JNull then
             (case py_float E (pget body ''displacement'') of Some x \<Rightarrow> x | None \<Rightarrow> Fin 0.01)
           else py_max (Fin 0.01) (py_mul (Fin 0.01) (to_float E (pget ?V ''slope'') 30))))"
      by (simp add: fill_displacement_rate_at pdr)
    then show ?thesis
      unfolding resolve_no_override [OF assms] snd_conv coerce_features_at
      using True by (simp add: dget_Some to_float_JFloat sl)
  next
    case False
    then have "fill_displacement_rate E body ?V ''displacement_rate'' =
        Some (pget body ''displacement_rate'')"
      by (simp add: fill_displacement_rate_at pdr dr)
    then show ?thesis
      unfolding resolve_no_override [OF assms] snd_conv coerce_features_at
      using False by (simp add: dget_Some)
  qed
qed

section \<open>Sample requests\<close>

lemma coordinates_floats:
  assumes "body ''lat'' = Some (JFloat a)" and "body ''lon'' = Some (JFloat b)"
  shows "coordinates E body = Inr (a, b)"
  using assms by (simp add: coordinates_def dget_def Let_def)

lemma no_override_10: "demo_overrides (demo_key (Fin 10) (Fin 10)) = None"
  by (simp add: demo_overrides_def demo_key_def py_round_def round_half_even_def)

lemma live_env_weather:
  "weather_data live_env lat lon =
     [''rain_1h'' \<mapsto> JFloat (Fin 5), ''temp'' \<mapsto> JFloat (Fin 40),
      ''wind_speed'' \<mapsto> JFloat (Fin 9)]"
  by (simp add: weather_data_def live_env_def test_env_sel weather_sample_def)

lemma live_env_lookups:
  "get_slope live_env lat lon = Returned (JInt 12)"
  "get_latest_sensor_state live_env = Returned sensor_sample"
  by (simp_all add: live_env_def test_env_sel)

section \<open>Null feature keys\<close>

text \<open>
  C9. In a request that matches no demo override, a \<^verbatim>\<open>rainfall\<close>, \<^verbatim>\<open>temperature\<close> or
  \<^verbatim>\<open>wind_speed\<close> key whose value is null resolves to the fixed default 10, 25 or 2,
  whatever the weather snapshot holds, while the same key left out takes the snapshot's
  value; a null \<^verbatim>\<open>slope\<close> still calls the slope lookup and takes its result, and a null
  \<^verbatim>\<open>vibration\<close> still reads the sensor state and takes its reading.
\<close>

theorem null_feature_keys:
  assumes "coordinates E body = Inr (lat, lon)"
    and "demo_overrides (demo_key lat lon) = None"
  shows "(body ''rainfall'' = Some JNull \<longrightarrow>
            snd (resolve_features E body lat lon) ''rainfall'' = Some (JFloat (Fin 10)))
     \<and> (body ''temperature'' = Some JNull \<longrightarrow>
            snd (resolve_features E body lat lon) ''temperature'' = Some (JFloat (Fin 25)))
     \<and> (body ''wind_speed'' = Some JNull \<longrightarrow>
            snd (resolve_features E body lat lon) ''wind_speed'' = Some (JFloat (Fin 2)))
     \<and> (\<forall>v. body ''rainfall'' = None \<and> weather_data E lat lon ''rain_1h'' = Some v \<longrightarrow>
            snd (resolve_features E body lat lon) ''rainfall'' = Some (JFloat (to_float E v 10)))
     \<and> (\<forall>v. body ''temperature'' = None \<and> weather_data E lat lon ''temp'' = Some v \<longrightarrow>
            snd (resolve_features E body lat lon) ''temperature''
              = Some (JFloat (to_float E v 25)))
     \<and> (\<forall>v. body ''wind_speed'' = None \<and> weather_data E lat lon ''wind_speed'' = Some v \<longrightarrow>
            snd (resolve_features E body lat lon) ''wind_speed''
              = Some (JFloat (to_float E v 2)))
     \<and> (body ''slope'' = Some JNull \<longrightarrow>
            GetSlope \<in> set (fst (resolve_features E body lat lon))
            \<and> snd (resolve_features E body lat lon) ''slope'' =
                Some (JFloat (case get_slope E lat lon of
                                Returned v \<Rightarrow> to_float E v 30 | Raised \<Rightarrow> Fin 30)))
     \<and> (body ''vibration'' = Some JNull \<longrightarrow>
            GetLatestSensorState \<in> set (fst (resolve_features E body lat lon))
            \<and> snd (resolve_features E body lat lon) ''vibration'' =
                Some (JFloat (case get_latest_sensor_state E of
                                Returned (JDict sensor_state) \<Rightarrow>
                                  to_float E (dget sensor_state ''vibration'' (JFloat (Fin 0))) 0
                              | _ \<Rightarrow> Fin 0)))"
proof -
  note no = assms(2)
  have r: "body ''rainfall'' = Some JNull \<longrightarrow>
            snd (resolve_features E body lat lon) ''rainfall'' = Some (JFloat (Fin 10))"
    by (simp add: resolve_rainfall [OF no] dget_Some to_float_JNull)
  have t: "body ''temperature'' = Some JNull \<longrightarrow>
            snd (resolve_features E body lat lon) ''temperature'' = Some (JFloat (Fin 25))"
    by (simp add: resolve_temperature [OF no] dget_Some to_float_JNull)
  have w: "body ''wind_speed'' = Some JNull \<longrightarrow>
            snd (resolve_features E body lat lon) ''wind_speed'' = Some (JFloat (Fin 2))"
    by (simp add: resolve_wind_speed [OF no] dget_Some to_float_JNull)
  have r': "\<forall>v. body ''rainfall'' = None \<and> weather_data E lat lon ''rain_1h'' = Some v \<longrightarrow>
            snd (resolve_features E body lat lon) ''rainfall'' = Some (JFloat (to_float E v 10))"
    by (simp add: resolve_rainfall [OF no] dget_def)
  have t': "\<forall>v. body ''temperature'' = None \<and> weather_data E lat lon ''temp'' = Some v \<longrightarrow>
            snd (resolve_features E body lat lon) ''temperature''
              = Some (JFloat (to_float E v 25))"
    by (simp add: resolve_temperature [OF no] dget_def)
  have w': "\<forall>v. body ''wind_speed'' = None \<and> weather_data E lat lon ''wind_speed'' = Some v \<longrightarrow>
            snd (resolve_features E body lat lon) ''wind_speed''
              = Some (JFloat (to_float E v 2))"
    by (simp add: resolve_wind_speed [OF no] dget_def)
  have s: "body ''slope'' = Some JNull \<longrightarrow>
            GetSlope \<in> set (fst (resolve_features E body lat lon))
            \<and> snd (resolve_features E body lat lon) ''slope'' =
                Some (JFloat (case get_slope E lat lon of
                                Returned v \<Rightarrow> to_float E v 30 | Raised \<Rightarrow> Fin 30))"
    by (simp add: resolve_slope [OF no] resolve_calls [OF no] pget_Some)
  have v: "body ''vibration'' = Some JNull \<longrightarrow>
            GetLatestSensorState \<in> set (fst (resolve_features E body lat lon))
            \<and> snd (resolve_features E body lat lon) ''vibration'' =
                Some (JFloat (case get_latest_sensor_state E of
                                Returned (JDict sensor_state) \<Rightarrow>
                                  to_float E (dget sensor_state ''vibration'' (JFloat (Fin 0))) 0
                              | _ \<Rightarrow> Fin 0))"
    by (simp add: resolve_vibration [OF no] resolve_calls [OF no] pget_Some)
  from r t w r' t' w' s v show ?thesis by (intro conjI)
qed

theorem null_feature_keys_witness:
  "coordinates live_env null_body = Inr (Fin 10, Fin 10)
   \<and> demo_overrides (demo_key (Fin 10) (Fin 10)) = None
   \<and> weather_data live_env (Fin 10) (Fin 10) ''rain_1h'' = Some (JFloat (Fin 5))
   \<and> snd (resolve_features live_env null_body (Fin 10) (Fin 10)) ''rainfall''
       = Some (JFloat (Fin 10))
   \<and> snd (resolve_features live_env null_body (Fin 10) (Fin 10)) ''temperature''
       = Some (JFloat (Fin 25))
   \<and> snd (resolve_features live_env null_body (Fin 10) (Fin 10)) ''wind_speed''
       = Some (JFloat (Fin 2))
   \<and> GetSlope \<in> set (fst (resolve_features live_env null_body (Fin 10) (Fin 10)))
   \<and> snd (resolve_features live_env null_body (Fin 10) (Fin 10)) ''slope''
       = Some (JFloat (Fin 12))
   \<and> GetLatestSensorState \<in> set (fst (resolve_features live_env null_body (Fin 10) (Fin 10)))
   \<and> snd (resolve_features live_env null_body (Fin 10) (Fin 10)) ''vibration''
       = Some (JFloat (Fin 1.5))"
proof -
  have c: "coordinates live_env null_body = Inr (Fin 10, Fin 10)"
    by (rule coordinates_floats) (simp_all add: null_body_def)
  have b: "null_body ''rainfall'' = Some JNull" "null_body ''temperature'' = Some JNull"
    "null_body ''wind_speed'' = Some JNull" "null_body ''slope'' = Some JNull"
    "null_body ''vibration'' = Some JNull"
    by (simp_all add: null_body_def)
  have l: "(case get_slope live_env (Fin 10) (Fin 10) of
              Returned v \<Rightarrow> to_float live_env v 30 | Raised \<Rightarrow> Fin 30) = Fin 12"
    by (simp add: live_env_lookups to_float_def)
  have s: "(case get_latest_sensor_state live_env of
              Returned (JDict sensor_state) \<Rightarrow>
                to_float live_env (dget sensor_state ''vibration'' (JFloat (Fin 0))) 0
            | _ \<Rightarrow> Fin 0) = Fin 1.5"
    by (simp add: live_env_lookups sensor_sample_def to_float_def dget_def)
  have w: "weather_data live_env (Fin 10) (Fin 10) ''rain_1h'' = Some (JFloat (Fin 5))"
    by (simp add: live_env_weather)
  from null_feature_keys [OF c no_override_10] b l s c w no_override_10
  show ?thesis by simp
qed

section \<open>The displacement rate\<close>



lemma slope_body_request:
  "coordinates E (slope_body s) = Inr (Fin 10, Fin 10)"
  "pget (slope_body s) ''displacement_rate'' = JNull"
  "pget (slope_body s) ''displacement'' = JNull"
  "pget (slope_body s) ''slope'' = JFloat (Fin s)"
  by (simp_all add: coordinates_def slope_body_def pget_def dget_def Let_def)

lemma slope_body_slope:
  "snd (resolve_features E (slope_body s) (Fin 10) (Fin 10)) ''slope'' = Some (JFloat (Fin s))"
  by (simp add: resolve_slope [OF no_override_10] slope_body_request to_float_JFloat)


section \<open>The vector handed to the classifier\<close>

lemma resolve_override:
  assumes "demo_overrides (demo_key lat lon) = Some entry"
  shows "resolve_features E body lat lon = ([FetchOpenWeather], coerce_features E entry)"
  using assms by (simp add: resolve_features_def Let_def)

lemma resolve_coerced: "\<exists>g. snd (resolve_features E body lat lon) = coerce_features E g"
proof (cases "demo_overrides (demo_key lat lon)")
  case None
  then show ?thesis unfolding resolve_no_override [OF None] snd_conv by blast
next
  case (Some entry)
  then show ?thesis unfolding resolve_override [OF Some] snd_conv by blast
qed

lemma coerced_complete: "missing_keys (coerce_features E g) = []"
  by (simp add: missing_keys_def required_keys_def coerce_features_at)

lemma coerced_vec: "\<exists>vec. input_vec E (coerce_features E g) = Some vec"
  by (simp add: input_vec_def required_keys_def coerce_features_at)

lemma coerced_dom: "dom (coerce_features E g) = set required_keys"
  by (auto simp: coerce_features_def required_keys_def split: if_splits)

lemma coerced_floats:
  "key \<in> set required_keys \<Longrightarrow> \<exists>f. coerce_features E g key = Some (JFloat f)"
  by (auto simp: required_keys_def coerce_features_at)

lemma run_model_const:
  assumes "model E = const_model p"
  shows "run_model E (coerce_features E g) =
     ([PredictProba],
      Success (coerce_features E g) (prediction p) (make_alert E (JDict (prediction p))))"
proof -
  obtain vec where "input_vec E (coerce_features E g) = Some vec"
    using coerced_vec by blast
  then have "risk_score E (coerce_features E g) = ([PredictProba], Inr (prediction p))"
    using assms by (simp add: risk_score_def coerced_complete const_model_def)
  then show ?thesis by (simp add: run_model_def)
qed

lemma predict_const:
  assumes "coordinates E body = Inr (lat, lon)" and "model E = const_model p"
  shows "predict E body =
     (fst (resolve_features E body lat lon) @ [PredictProba],
      Success (snd (resolve_features E body lat lon)) (prediction p)
        (make_alert E (JDict (prediction p))))"
proof -
  obtain g where g: "snd (resolve_features E body lat lon) = coerce_features E g"
    using resolve_coerced by blast
  obtain c1 where c: "resolve_features E body lat lon = (c1, coerce_features E g)"
    using g by (cases "resolve_features E body lat lon") simp
  show ?thesis
    by (simp add: predict_def assms(1) c run_model_const [OF assms(2)])
qed

theorem alert_never_null_witness:
  "predict live_env (slope_body 40) =
     ([FetchOpenWeather, GetLatestSensorState, PredictProba],
      Success (snd (resolve_features live_env (slope_body 40) (Fin 10) (Fin 10)))
        (prediction 0.9) (Some HighRisk))
   \<and> prediction 0.9 ''risk'' = Some (JStr ''high'')"
proof -
  have m: "model live_env = const_model 0.9"
    by (simp add: live_env_def test_env_sel)
  have c: "fst (resolve_features live_env (slope_body 40) (Fin 10) (Fin 10)) =
      [FetchOpenWeather, GetLatestSensorState]"
    by (simp add: resolve_calls [OF no_override_10] slope_body_request
        pget_def dget_def slope_body_def)
  have p: "predict live_env (slope_body 40) =
     ([FetchOpenWeather, GetLatestSensorState, PredictProba],
      Success (snd (resolve_features live_env (slope_body 40) (Fin 10) (Fin 10)))
        (prediction 0.9) (make_alert live_env (JDict (prediction 0.9))))"
    using predict_const [OF slope_body_request(1) m, of 40] by (simp add: c)
  from alert_never_null [OF p] obtain q where
    "prediction 0.9 = prediction q"
    and a: "make_alert live_env (JDict (prediction 0.9)) =
         Some (if 0.7 < q then HighRisk else if 0.4 < q then ModerateRisk else LowRisk)"
    by blast
  have "make_alert live_env (JDict (prediction 0.9)) \<noteq> None" using a by simp
  moreover have "make_alert live_env (JDict (prediction 0.9)) = Some HighRisk"
    by (simp add: make_alert_prediction)
  moreover have "prediction 0.9 ''risk'' = Some (JStr ''high'')"
    by (simp add: prediction_def risk_label_def)
  ultimately show ?thesis using p by simp
qed

section \<open>Finite features\<close>

lemma is_finite_iff: "is_finite f \<longleftrightarrow> (\<exists>x. f = Fin x)"
  by (cases f) simp_all

lemma to_float_finite: "finite_value E v \<Longrightarrow> is_finite (to_float E v d)"
  by (cases "py_float E v") (simp_all add: to_float_def finite_value_def)

lemma finite_value_Fin: "finite_value E (JFloat (Fin x))"
  by (simp add: finite_value_def)

lemma finite_value_JNull: "finite_value E JNull"
  by (simp add: finite_value_def)

lemma dget_finite:
  assumes "\<And>v. d k = Some v \<Longrightarrow> finite_value E v" and "finite_value E dflt"
  shows "finite_value E (dget d k dflt)"
  using assms by (cases "d k") (simp_all add: dget_def)

lemma pget_finite:
  assumes "\<And>v. d k = Some v \<Longrightarrow> finite_value E v"
  shows "finite_value E (pget d k)"
  unfolding pget_def using assms finite_value_JNull by (rule dget_finite)

lemma heuristic_is_finite:
  "is_finite slope \<Longrightarrow> is_finite (py_max (Fin 0.01) (py_mul (Fin 0.01) slope))"
  by (cases slope) (simp_all add: py_max_def)

lemma demo_entries:
  "demo_overrides key = Some entry \<Longrightarrow> entry = jharia \<or> entry = talcher \<or> entry = dhanbad"
  by (auto simp: demo_overrides_def split: if_splits)

lemma jharia_coerced:
  "coerce_features E jharia ''rainfall'' = Some (JFloat (Fin 70))"
  "coerce_features E jharia ''temperature'' = Some (JFloat (Fin 35))"
  "coerce_features E jharia ''slope'' = Some (JFloat (Fin 50))"
  "coerce_features E jharia ''wind_speed'' = Some (JFloat (Fin 10))"
  "coerce_features E jharia ''displacement_rate'' = Some (JFloat (Fin 0.5))"
  "coerce_features E jharia ''vibration'' = Some (JFloat (Fin 3.5))"
  by (simp_all add: coerce_features_at jharia_def dget_def to_float_def)

lemma talcher_coerced:
  "coerce_features E talcher ''rainfall'' = Some (JFloat (Fin 40))"
  "coerce_features E talcher ''temperature'' = Some (JFloat (Fin 30))"
  "coerce_features E talcher ''slope'' = Some (JFloat (Fin 35))"
  "coerce_features E talcher ''wind_speed'' = Some (JFloat (Fin 6))"
  "coerce_features E talcher ''displacement_rate'' = Some (JFloat (Fin 0.3))"
  "coerce_features E talcher ''vibration'' = Some (JFloat (Fin 1.5))"
  by (simp_all add: coerce_features_at talcher_def dget_def to_float_def)

lemma dhanbad_coerced:
  "coerce_features E dhanbad ''rainfall'' = Some (JFloat (Fin 10))"
  "coerce_features E dhanbad ''temperature'' = Some (JFloat (Fin 25))"
  "coerce_features E dhanbad ''slope'' = Some (JFloat (Fin 15))"
  "coerce_features E dhanbad ''wind_speed'' = Some (JFloat (Fin 2))"
  "coerce_features E dhanbad ''displacement_rate'' = Some (JFloat (Fin 0.1))"
  "coerce_features E dhanbad ''vibration'' = Some (JFloat (Fin 0.2))"
  by (simp_all add: coerce_features_at dhanbad_def dget_def to_float_def)

lemma required_key_cases:
  assumes "key \<in> set required_keys"
  obtains "key = ''rainfall''" | "key = ''temperature''" | "key = ''slope''"
    | "key = ''wind_speed''" | "key = ''displacement_rate''" | "key = ''vibration''"
proof -
  from assms have "key = ''rainfall'' \<or> key = ''temperature'' \<or> key = ''slope''
      \<or> key = ''wind_speed'' \<or> key = ''displacement_rate'' \<or> key = ''vibration''"
    by (simp only: required_keys_def list.set insert_iff empty_iff simp_thms)
  then show ?thesis by (elim disjE) (erule that)+
qed

lemma demo_entry_finite:
  assumes "demo_overrides k = Some entry" and "key \<in> set required_keys"
  shows "\<exists>x. coerce_features E entry key = Some (JFloat (Fin x))"
proof -
  have j: "\<exists>x. coerce_features E jharia key = Some (JFloat (Fin x))"
    using assms(2) by (elim required_key_cases) (hypsubst, rule exI, rule jharia_coerced)+
  have t: "\<exists>x. coerce_features E talcher key = Some (JFloat (Fin x))"
    using assms(2) by (elim required_key_cases) (hypsubst, rule exI, rule talcher_coerced)+
  have d: "\<exists>x. coerce_features E dhanbad key = Some (JFloat (Fin x))"
    using assms(2) by (elim required_key_cases) (hypsubst, rule exI, rule dhanbad_coerced)+
  from demo_entries [OF assms(1)] show ?thesis
    by (elim disjE) (hypsubst, rule j t d)+
qed

lemma finite_feature: "is_finite f \<Longrightarrow> \<exists>x. Some (JFloat f) = Some (JFloat (Fin x))"
  by (simp add: is_finite_iff)

lemma finite_slope:
  assumes "finite_inputs E body lat lon"
  shows "is_finite (if pget body ''slope'' = JNull then
          (case get_slope E lat lon of Returned v \<Rightarrow> to_float E v 30 | Raised \<Rightarrow> Fin 30)
        else to_float E (pget body ''slope'') 30)"
proof (cases "pget body ''slope'' = JNull")
  case True
  show ?thesis
  proof (cases "get_slope E lat lon")
    case Raised
    with True show ?thesis by simp
  next
    case (Returned v)
    with assms have "finite_value E v" by (simp add: finite_inputs_def)
    with True Returned show ?thesis by (simp add: to_float_finite)
  qed
next
  case False
  have "finite_value E (pget body ''slope'')"
    using assms by (intro pget_finite) (simp add: finite_inputs_def)
  with False show ?thesis by (simp add: to_float_finite)
qed

lemma finite_vibration:
  assumes "finite_inputs E body lat lon"
  shows "is_finite (if pget body ''vibration'' = JNull then
          (case get_latest_sensor_state E of
             Returned (JDict sensor_state) \<Rightarrow>
               to_float E (dget sensor_state ''vibration'' (JFloat (Fin 0))) 0
           | _ \<Rightarrow> Fin 0)
        else to_float E (pget body ''vibration'') 0)"
proof (cases "pget body ''vibration'' = JNull")
  case True
  show ?thesis
  proof (cases "get_latest_sensor_state E")
    case Raised
    with True show ?thesis by simp
  next
    case (Returned v)
    show ?thesis
    proof (cases v)
      case (JDict s)
      have "finite_value E (dget s ''vibration'' (JFloat (Fin 0)))"
        using assms Returned JDict
        by (intro dget_finite finite_value_Fin) (simp add: finite_inputs_def)
      with True Returned JDict show ?thesis by (simp add: to_float_finite)
    qed (use True Returned in simp_all)
  qed
next
  case False
  have "finite_value E (pget body ''vibration'')"
    using assms by (intro pget_finite) (simp add: finite_inputs_def)
  with False show ?thesis by (simp add: to_float_finite)
qed

lemma finite_displacement_rate:
  assumes "finite_inputs E body lat lon"
  shows "is_finite (if pget body ''displacement_rate'' = JNull then
          (if pget body ''displacement'' \<noteq> JNull then
             (case py_float E (pget body ''displacement'') of Some f \<Rightarrow> f | None \<Rightarrow> Fin 0.01)
           else py_max (Fin 0.01) (py_mul (Fin 0.01)
                  (if pget body ''slope'' = JNull then
                     (case get_slope E lat lon of
                        Returned v \<Rightarrow> to_float E v 30 | Raised \<Rightarrow> Fin 30)
                   else to_float E (pget body ''slope'') 30)))
        else to_float E (pget body ''displacement_rate'') 0.01)"
proof (cases "pget body ''displacement_rate'' = JNull")
  case True
  show ?thesis
  proof (cases "pget body ''displacement'' = JNull")
    case True
    with \<open>pget body ''displacement_rate'' = JNull\<close> heuristic_is_finite [OF finite_slope [OF assms]]
    show ?thesis by simp
  next
    case False
    have "finite_value E (pget body ''displacement'')"
      using assms by (intro pget_finite) (simp add: finite_inputs_def)
    then have "is_finite (case py_float E (pget body ''displacement'') of
                            Some f \<Rightarrow> f | None \<Rightarrow> Fin 0.01)"
      by (cases "py_float E (pget body ''displacement'')") (simp_all add: finite_value_def)
    with False \<open>pget body ''displacement_rate'' = JNull\<close> show ?thesis by simp
  qed
next
  case False
  have "finite_value E (pget body ''displacement_rate'')"
    using assms by (intro pget_finite) (simp add: finite_inputs_def)
  with False show ?thesis by (simp add: to_float_finite)
qed

lemma finite_weather_chain:
  assumes "finite_inputs E body lat lon"
  shows "is_finite (to_float E
       (dget body ''rainfall''
          (dget (weather_data E lat lon) ''rain_1h'' (dget body ''rain'' (JFloat (Fin 10))))) 10)"
    and "is_finite (to_float E
       (dget body ''temperature'' (dget (weather_data E lat lon) ''temp'' (JFloat (Fin 25)))) 25)"
    and "is_finite (to_float E
       (dget body ''wind_speed'' (dget (weather_data E lat lon) ''wind_speed'' (JFloat (Fin 2)))) 2)"
proof -
  have b: "\<And>k v. body k = Some v \<Longrightarrow> finite_value E v"
    using assms by (simp add: finite_inputs_def)
  have w: "\<And>k v. weather_data E lat lon k = Some v \<Longrightarrow> finite_value E v"
    using assms by (simp add: finite_inputs_def)
  show "is_finite (to_float E
       (dget body ''rainfall''
          (dget (weather_data E lat lon) ''rain_1h'' (dget body ''rain'' (JFloat (Fin 10))))) 10)"
    by (intro to_float_finite dget_finite finite_value_Fin) (erule b w)+
  show "is_finite (to_float E
       (dget body ''temperature'' (dget (weather_data E lat lon) ''temp'' (JFloat (Fin 25)))) 25)"
    by (intro to_float_finite dget_finite finite_value_Fin) (erule b w)+
  show "is_finite (to_float E
       (dget body ''wind_speed'' (dget (weather_data E lat lon) ''wind_speed'' (JFloat (Fin 2)))) 2)"
    by (intro to_float_finite dget_finite finite_value_Fin) (erule b w)+
qed

lemma resolved_finite:
  assumes "finite_inputs E body lat lon" and "key \<in> set required_keys"
  shows "\<exists>x. snd (resolve_features E body lat lon) key = Some (JFloat (Fin x))"
proof (cases "demo_overrides (demo_key lat lon)")
  case (Some entry)
  show ?thesis
    unfolding resolve_override [OF Some] snd_conv
    using Some assms(2) by (rule demo_entry_finite)
next
  case None
  from assms(2) show ?thesis
  proof (rule required_key_cases)
    assume k: "key = ''rainfall''"
    show ?thesis unfolding k resolve_rainfall [OF None]
      by (rule finite_feature) (rule finite_weather_chain(1) [OF assms(1)])
  next
    assume k: "key = ''temperature''"
    show ?thesis unfolding k resolve_temperature [OF None]
      by (rule finite_feature) (rule finite_weather_chain(2) [OF assms(1)])
  next
    assume k: "key = ''slope''"
    show ?thesis unfolding k resolve_slope [OF None]
      by (rule finite_feature) (rule finite_slope [OF assms(1)])
  next
    assume k: "key = ''wind_speed''"
    show ?thesis unfolding k resolve_wind_speed [OF None]
      by (rule finite_feature) (rule finite_weather_chain(3) [OF assms(1)])
  next
    assume k: "key = ''displacement_rate''"
    show ?thesis unfolding k resolve_displacement_rate [OF None]
      by (rule finite_feature) (rule finite_displacement_rate [OF assms(1)])
  next
    assume k: "key = ''vibration''"
    show ?thesis unfolding k resolve_vibration [OF None]
      by (rule finite_feature) (rule finite_vibration [OF assms(1)])
  qed
qed

section \<open>The resolved vector\<close>

text \<open>
  C6. For a request with valid coordinates, override or not, the dictionary handed to the
  classifier has exactly the six required keys and each value is a float, never null or
  missing. Each value is finite when no value of the body, of the weather dictionary, of the
  slope lookup and of the sensor state reads as an infinity or a NaN; a value that does
  passes through the coercion as it is.
\<close>

theorem resolved_vector_shape:
  assumes "coordinates E body = Inr (lat, lon)"
    and "resolve_features E body lat lon = (calls, features)"
  shows "dom features = set required_keys
     \<and> (\<forall>key \<in> set required_keys. \<exists>f. features key = Some (JFloat f))
     \<and> (finite_inputs E body lat lon \<longrightarrow>
          (\<forall>key \<in> set required_keys. \<exists>x. features key = Some (JFloat (Fin x))))"
proof -
  from assms(2) have f: "features = snd (resolve_features E body lat lon)" by simp
  obtain g where g: "features = coerce_features E g"
    using resolve_coerced [of E body lat lon] unfolding f by (elim exE)
  have d: "dom features = set required_keys"
    unfolding g by (rule coerced_dom)
  have k: "\<forall>key \<in> set required_keys. \<exists>f. features key = Some (JFloat f)"
    unfolding g by (intro ballI) (rule coerced_floats)
  have n: "finite_inputs E body lat lon \<longrightarrow>
          (\<forall>key \<in> set required_keys. \<exists>x. features key = Some (JFloat (Fin x)))"
    unfolding f by (intro impI ballI) (rule resolved_finite)
  from d k n show ?thesis by (intro conjI)
qed

lemma live_env_finite: "finite_inputs live_env (slope_body s) (Fin 10) (Fin 10)"
proof -
  have b: "\<forall>k v. slope_body s k = Some v \<longrightarrow> finite_value live_env v"
    by (simp add: slope_body_def finite_value_def)
  have w: "\<forall>k v. weather_data live_env (Fin 10) (Fin 10) k = Some v \<longrightarrow> finite_value live_env v"
    by (simp add: live_env_weather finite_value_def)
  have l: "\<forall>v. get_slope live_env (Fin 10) (Fin 10) = Returned v \<longrightarrow> finite_value live_env v"
    by (simp add: live_env_lookups finite_value_def)
  have r: "\<forall>d k v. get_latest_sensor_state live_env = Returned (JDict d) \<longrightarrow> d k = Some v
            \<longrightarrow> finite_value live_env v"
    by (simp add: live_env_lookups sensor_sample_def finite_value_def)
  from b w l r show ?thesis unfolding finite_inputs_def by (intro conjI)
qed

lemma slope_body_rainfall:
  "snd (resolve_features live_env (slope_body s) (Fin 10) (Fin 10)) ''rainfall''
     = Some (JFloat (Fin 5))"
  by (simp add: resolve_rainfall [OF no_override_10] live_env_weather slope_body_def dget_def
      to_float_def)

theorem resolved_vector_shape_witness:
  "coordinates live_env (slope_body 40) = Inr (Fin 10, Fin 10)
   \<and> finite_inputs live_env (slope_body 40) (Fin 10) (Fin 10)
   \<and> dom (snd (resolve_features live_env (slope_body 40) (Fin 10) (Fin 10))) = set required_keys
   \<and> snd (resolve_features live_env (slope_body 40) (Fin 10) (Fin 10)) ''slope''
       = Some (JFloat (Fin 40))
   \<and> snd (resolve_features live_env (slope_body 40) (Fin 10) (Fin 10)) ''rainfall''
       = Some (JFloat (Fin 5))"
proof -
  have p: "resolve_features live_env (slope_body 40) (Fin 10) (Fin 10) =
      (fst (resolve_features live_env (slope_body 40) (Fin 10) (Fin 10)),
       snd (resolve_features live_env (slope_body 40) (Fin 10) (Fin 10)))"
    by simp
  from resolved_vector_shape [OF slope_body_request(1) p]
  have "dom (snd (resolve_features live_env (slope_body 40) (Fin 10) (Fin 10)))
      = set required_keys"
    by (elim conjE)
  then show ?thesis
    by (simp add: slope_body_request(1) live_env_finite slope_body_slope slope_body_rainfall)
qed

theorem non_finite_feature_counterexample:
  "coordinates live_env infinite_slope_body = Inr (Fin 10, Fin 10)
   \<and> snd (resolve_features live_env infinite_slope_body (Fin 10) (Fin 10)) ''slope''
       = Some (JFloat PInf)
   \<and> snd (resolve_features live_env infinite_slope_body (Fin 10) (Fin 10)) ''displacement_rate''
       = Some (JFloat PInf)
   \<and> \<not> is_finite PInf"
proof -
  have c: "coordinates live_env infinite_slope_body = Inr (Fin 10, Fin 10)"
    by (rule coordinates_floats) (simp_all add: infinite_slope_body_def)
  have g: "pget infinite_slope_body ''slope'' = JFloat PInf"
    "pget infinite_slope_body ''displacement_rate'' = JNull"
    "pget infinite_slope_body ''displacement'' = JNull"
    by (simp_all add: infinite_slope_body_def pget_def dget_def)
  have s: "snd (resolve_features live_env infinite_slope_body (Fin 10) (Fin 10)) ''slope''
       = Some (JFloat PInf)"
    by (simp add: resolve_slope [OF no_override_10] g to_float_JFloat)
  have d: "snd (resolve_features live_env infinite_slope_body (Fin 10) (Fin 10))
        ''displacement_rate'' = Some (JFloat PInf)"
    by (simp add: resolve_displacement_rate [OF no_override_10] g to_float_JFloat py_max_def)
  from c s d show ?thesis by simp
qed

end
